theory Spec2Isabelle
  imports Main
begin

section \<open>Book catalog: data model\<close>

text \<open>
  The repository holds several variants of one Flask application (books, genres and
  authors over SQLite through SQLAlchemy) and one in-process simulation of signed
  messages between services. The definitions below follow the source files function by
  function. A table is the list of its rows in storage order. A handler is modelled one
  branch of its HTTP method at a time: it takes the parts of the Flask request it reads
  (the query string, whether the body is JSON, the body) and the table, and returns the
  HTTP status and the JSON body, with the new table when it writes.

  Python strings are modelled as \<open>string\<close>: a character is a code point below 256.
  In that range the decimal digits of \<open>\d\<close>, \<open>int\<close> and \<open>str.isdigit\<close> are the
  ASCII digits.
\<close>

subsection \<open>Dates\<close>

text \<open>\<open>datetime.date\<close>: a year, a month and a day.\<close>

record date =
  year :: nat
  month :: nat
  day :: nat

definition is_leap :: "nat \<Rightarrow> bool" where
  "is_leap y = (y mod 4 = 0 \<and> (y mod 100 \<noteq> 0 \<or> y mod 400 = 0))"

definition days_in_month :: "nat \<Rightarrow> nat \<Rightarrow> nat" where
  "days_in_month y m =
     (if m = 2 then (if is_leap y then 29 else 28)
      else if m = 4 \<or> m = 6 \<or> m = 9 \<or> m = 11 then 30 else 31)"

text \<open>
  The constructor \<open>date(y, m, d)\<close> raises \<open>ValueError\<close> (here \<open>None\<close>) unless
  \<open>1 \<le> y \<le> 9999\<close>, \<open>1 \<le> m \<le> 12\<close> and \<open>1 \<le> d \<le>\<close> the length of the month.
\<close>

definition py_date :: "nat \<Rightarrow> nat \<Rightarrow> nat \<Rightarrow> date option" where
  "py_date y m d =
     (if 1 \<le> y \<and> y \<le> 9999 \<and> 1 \<le> m \<and> m \<le> 12 \<and> 1 \<le> d \<and> d \<le> days_in_month y m
      then Some \<lparr>year = y, month = m, day = d\<rparr> else None)"


subsection \<open>JSON values and responses\<close>

datatype json =
    JNull
  | JBool bool
  | JInt int
  | JStr string
  | JList "json list"
  | JObj "(string \<times> json) list"

text \<open>A response is the HTTP status with the JSON body (\<open>jsonify(...), status\<close>).\<close>

type_synonym response = "nat \<times> json"

text \<open>\<open>api_error_single(msg, status)\<close> of the secured variants.\<close>

definition api_error_single :: "string \<Rightarrow> nat \<Rightarrow> response" where
  "api_error_single msg st = (st, JObj [(''message'', JStr msg)])"

subsection \<open>Decimal output\<close>

definition digit_char :: "nat \<Rightarrow> char" where
  "digit_char n = char_of (48 + n mod 10)"

fun show_nat :: "nat \<Rightarrow> string" where
  "show_nat n = (if n < 10 then [digit_char n] else show_nat (n div 10) @ [digit_char n])"

declare show_nat.simps [simp del]

text \<open>A number left-padded with zeros to a width, as \<open>%m\<close> and \<open>%d\<close> print it.\<close>

definition zero_pad :: "nat \<Rightarrow> nat \<Rightarrow> string" where
  "zero_pad w n = replicate (w - length (show_nat n)) (CHR ''0'') @ show_nat n"

text \<open>
  \<open>d.strftime("%Y-%m-%d")\<close> and \<open>d.isoformat()\<close>. The year is printed with four
  digits, as the library documents \<open>%Y\<close>; some C libraries leave out the leading
  zeros of a year below 1000, and no statement below is about such a year.
\<close>

definition strftime_Y_m_d :: "date \<Rightarrow> string" where
  "strftime_Y_m_d d = zero_pad 4 (year d) @ ''-'' @ zero_pad 2 (month d) @ ''-'' @ zero_pad 2 (day d)"

subsection \<open>Characters, digits and whitespace\<close>

text \<open>\<open>ord(c)\<close>, a character class \<open>[lo-hi]\<close> of a pattern, and \<open>\d\<close>.\<close>

definition ord :: "char \<Rightarrow> nat" where
  "ord c = of_char c"

definition in_class :: "char \<Rightarrow> char \<Rightarrow> char \<Rightarrow> bool" where
  "in_class lo hi c = (ord lo \<le> ord c \<and> ord c \<le> ord hi)"

definition is_digit :: "char \<Rightarrow> bool" where
  "is_digit c = in_class (CHR ''0'') (CHR ''9'') c"

definition digit_val :: "char \<Rightarrow> nat" where
  "digit_val c = ord c - 48"

text \<open>\<open>int(s)\<close> on a string of digits.\<close>

definition int_digits :: "string \<Rightarrow> nat" where
  "int_digits s = foldl (\<lambda>a c. 10 * a + digit_val c) 0 s"

text \<open>
  \<open>str.isspace\<close> on one character (tab to carriage return, the four separators
  \<open>0x1c\<close> to \<open>0x1f\<close>, the space, \<open>0x85\<close> and \<open>0xa0\<close>) and \<open>str.strip()\<close>.
\<close>

definition is_space :: "char \<Rightarrow> bool" where
  "is_space c = (ord c \<in> set [9, 10, 11, 12, 13, 28, 29, 30, 31, 32, 133, 160])"

definition strip :: "string \<Rightarrow> string" where
  "strip s = rev (dropWhile is_space (rev (dropWhile is_space s)))"

subsection \<open>\<open>datetime.strptime\<close> for the two date formats\<close>

text \<open>
  \<open>strptime\<close> turns its format into a regular expression, one group per directive,
  matches it at the start of the string, and raises \<open>ValueError\<close> when nothing matches
  or when the match leaves part of the string unread. The groups are
  \<open>%Y = \d\d\d\d\<close>, \<open>%m = 1[0-2]|0[1-9]|[1-9]\<close> and
  \<open>%d = 3[0-1]|[1-2]\d|0[1-9]|[1-9]| [1-9]\<close>. A group is modelled by the list of its
  possible matches (the value read and the rest of the string) in the order the
  backtracking matcher tries them; the match found is the first of the list.
\<close>

definition re_Y :: "string \<Rightarrow> (nat \<times> string) list" where
  "re_Y s = (if 4 \<le> length s \<and> list_all is_digit (take 4 s)
             then [(int_digits (take 4 s), drop 4 s)] else [])"

text \<open>An alternative of two characters, of one character, and of a space and a character.\<close>

definition re_2 :: "(char \<Rightarrow> bool) \<Rightarrow> (char \<Rightarrow> bool) \<Rightarrow> string \<Rightarrow> (nat \<times> string) list" where
  "re_2 p q s = (case s of a # b # r \<Rightarrow> if p a \<and> q b then [(int_digits [a, b], r)] else [] | _ \<Rightarrow> [])"

definition re_1 :: "(char \<Rightarrow> bool) \<Rightarrow> string \<Rightarrow> (nat \<times> string) list" where
  "re_1 p s = (case s of a # r \<Rightarrow> if p a then [(int_digits [a], r)] else [] | [] \<Rightarrow> [])"

definition re_sp1 :: "(char \<Rightarrow> bool) \<Rightarrow> string \<Rightarrow> (nat \<times> string) list" where
  "re_sp1 p s = (case s of a # b # r \<Rightarrow> if a = CHR '' '' \<and> p b then [(int_digits [b], r)] else [] | _ \<Rightarrow> [])"

text \<open>A literal character of the format.\<close>

definition re_lit :: "char \<Rightarrow> string \<Rightarrow> string list" where
  "re_lit c s = (case s of a # r \<Rightarrow> if a = c then [r] else [] | [] \<Rightarrow> [])"

definition re_m :: "string \<Rightarrow> (nat \<times> string) list" where
  "re_m s = re_2 (in_class (CHR ''1'') (CHR ''1'')) (in_class (CHR ''0'') (CHR ''2'')) s
          @ re_2 (in_class (CHR ''0'') (CHR ''0'')) (in_class (CHR ''1'') (CHR ''9'')) s
          @ re_1 (in_class (CHR ''1'') (CHR ''9'')) s"

definition re_d :: "string \<Rightarrow> (nat \<times> string) list" where
  "re_d s = re_2 (in_class (CHR ''3'') (CHR ''3'')) (in_class (CHR ''0'') (CHR ''1'')) s
          @ re_2 (in_class (CHR ''1'') (CHR ''2'')) is_digit s
          @ re_2 (in_class (CHR ''0'') (CHR ''0'')) (in_class (CHR ''1'') (CHR ''9'')) s
          @ re_1 (in_class (CHR ''1'') (CHR ''9'')) s
          @ re_sp1 (in_class (CHR ''1'') (CHR ''9'')) s"


definition match_Y_m_d :: "string \<Rightarrow> ((nat \<times> nat \<times> nat) \<times> string) list" where
  "match_Y_m_d s = [((y, m, d), r5). (y, r1) \<leftarrow> re_Y s, r2 \<leftarrow> re_lit (CHR ''-'') r1,
      (m, r3) \<leftarrow> re_m r2, r4 \<leftarrow> re_lit (CHR ''-'') r3, (d, r5) \<leftarrow> re_d r4]"

text \<open>
  \<open>datetime.strptime(s, fmt).date()\<close>; \<open>None\<close> is the \<open>ValueError\<close>, raised when
  there is no match, when data remains unconverted, or by the date constructor.
\<close>

definition strptime_date :: "(string \<Rightarrow> ((nat \<times> nat \<times> nat) \<times> string) list) \<Rightarrow> string \<Rightarrow> date option" where
  "strptime_date fmt s =
     (case fmt s of [] \<Rightarrow> None
      | ((y, m, d), r) # _ \<Rightarrow> if r \<noteq> [] then None else py_date y m d)"


subsection \<open>The date parsers of the variants\<close>

text \<open>
  \<open>re.compile(r"^\d{8}$").match(s)\<close>, the pattern \<open>INPUT_DATE_RE\<close> of the original
  variant and \<open>DATE_RE\<close> of variant 2: eight digits, then the end of the string; \<open>$\<close>
  also matches just before a line feed that ends the string.
\<close>

definition DATE_RE_match :: "string \<Rightarrow> bool" where
  "DATE_RE_match s =
     (8 \<le> length s \<and> list_all is_digit (take 8 s) \<and> (drop 8 s = [] \<or> drop 8 s = [CHR 0x0A]))"


text \<open>\<open>parse_yyyymmdd\<close> of variant 2: \<open>date(int(s[0:4]), int(s[4:6]), int(s[6:8]))\<close>.\<close>

definition parse_yyyymmdd :: "string \<Rightarrow> date option" where
  "parse_yyyymmdd s =
     (if s = [] then None
      else if \<not> DATE_RE_match s then None
      else py_date (int_digits (take 4 s)) (int_digits (take 2 (drop 4 s)))
             (int_digits (take 2 (drop 6 s))))"


subsection \<open>What the specification calls a valid \<open>yyyymmdd\<close> string\<close>





subsection \<open>Request values\<close>

text \<open>
  A field of a JSON request body: \<open>null\<close>, a boolean, an integer or a string. Numbers
  with a fraction, arrays and nested objects are not modelled. A body is the dictionary
  \<open>request.get_json()\<close> returns; the query string is the dictionary \<open>request.args\<close>.
\<close>

datatype jval = VNull | VBool bool | VInt int | VStr string

type_synonym payload = "string \<rightharpoonup> jval"

type_synonym query_args = "string \<rightharpoonup> string"

text \<open>Python's truth value of a field, of \<open>payload.get(k)\<close>, and of an optional string.\<close>

fun truthy :: "jval \<Rightarrow> bool" where
  "truthy VNull = False"
| "truthy (VBool b) = b"
| "truthy (VInt i) = (i \<noteq> 0)"
| "truthy (VStr s) = (s \<noteq> [])"

definition payload_get :: "payload \<Rightarrow> string \<Rightarrow> jval" where
  "payload_get p k = (case p k of None \<Rightarrow> VNull | Some v \<Rightarrow> v)"


text \<open>\<open>x or ""\<close> on a nullable string column.\<close>

definition or_empty :: "string option \<Rightarrow> string" where
  "or_empty x = (case x of None \<Rightarrow> [] | Some s \<Rightarrow> s)"

text \<open>\<open>str(v)\<close> of a field.\<close>

definition show_int :: "int \<Rightarrow> string" where
  "show_int i = (if i < 0 then CHR ''-'' # show_nat (nat (- i)) else show_nat (nat i))"

fun py_str :: "jval \<Rightarrow> string" where
  "py_str VNull = ''None''"
| "py_str (VBool b) = (if b then ''True'' else ''False'')"
| "py_str (VInt i) = show_int i"
| "py_str (VStr s) = s"

text \<open>
  \<open>int(s)\<close> on a string: surrounding whitespace is dropped, a sign may lead, and the
  digits may be separated by single underscores. \<open>None\<close> is the \<open>ValueError\<close>.
  The whitespace \<open>int\<close> drops is the ASCII whitespace with \<open>0x85\<close> and \<open>0xa0\<close>;
  unlike \<open>str.strip\<close> it keeps the separators \<open>0x1c\<close> to \<open>0x1f\<close>. An
  interpreter that bounds the number of digits raises \<open>ValueError\<close> beyond it, which
  is again \<open>None\<close>: the statements below hold for either answer.
\<close>

definition is_int_space :: "char \<Rightarrow> bool" where
  "is_int_space c = (ord c \<in> set [9, 10, 11, 12, 13, 32, 133, 160])"

definition int_strip :: "string \<Rightarrow> string" where
  "int_strip s = rev (dropWhile is_int_space (rev (dropWhile is_int_space s)))"

fun int_body :: "nat \<Rightarrow> string \<Rightarrow> nat option" where
  "int_body acc [] = Some acc"
| "int_body acc [c] = (if is_digit c then Some (10 * acc + digit_val c) else None)"
| "int_body acc (c # d # cs) =
     (if is_digit c then int_body (10 * acc + digit_val c) (d # cs)
      else if c = CHR ''_'' \<and> is_digit d then int_body (10 * acc + digit_val d) cs
      else None)"

definition int_unsigned :: "string \<Rightarrow> nat option" where
  "int_unsigned s = (case s of [] \<Rightarrow> None
      | c # cs \<Rightarrow> if is_digit c then int_body (digit_val c) cs else None)"

definition py_int :: "string \<Rightarrow> int option" where
  "py_int s =
     (case int_strip s of [] \<Rightarrow> None
      | c # cs \<Rightarrow>
          if c = CHR ''-'' then map_option (\<lambda>n. - int n) (int_unsigned cs)
          else if c = CHR ''+'' then map_option int (int_unsigned cs)
          else map_option int (int_unsigned (c # cs)))"

text \<open>\<open>int(request.args.get(k, default))\<close> with an integer default.\<close>

definition int_arg :: "query_args \<Rightarrow> string \<Rightarrow> int \<Rightarrow> int option" where
  "int_arg args k dflt = (case args k of None \<Rightarrow> Some dflt | Some s \<Rightarrow> py_int s)"


subsection \<open>Queries\<close>


definition sql_offset :: "int \<Rightarrow> 'r list \<Rightarrow> 'r list" where
  "sql_offset n rows = drop (nat n) rows"

definition sql_limit :: "int \<Rightarrow> 'r list \<Rightarrow> 'r list" where
  "sql_limit n rows = (if n < 0 then rows else take (nat n) rows)"



text \<open>
  The key SQLite gives a new row of a table with an integer primary key: one more
  than the largest key in the table, 1 in an empty table.
\<close>

definition next_id :: "int list \<Rightarrow> int" where
  "next_id ids = (case ids of [] \<Rightarrow> 1 | x # xs \<Rightarrow> fold max xs x + 1)"

text \<open>
  An exception that leaves a handler is answered by Flask with status 500, and the
  session's changes are dropped.
\<close>

definition internal_server_error :: response where
  "internal_server_error = (500, JNull)"

section \<open>Variant 2 (CHATGPT\_book\_catalog\_secure\_code\_2.py): books\<close>

text \<open>
  The model \<open>Book\<close>, a row of the table \<open>books\<close>: author and genre are stored by
  name, and the three last columns are nullable.
\<close>

record book =
  Book_ID :: int
  Book_Title :: string
  Book_Author :: string
  Book_Genre :: string
  Book_Publication :: "string option"
  Book_Publication_Date :: "date option"
  Book_Description :: "string option"

text \<open>\<open>Book.to_dict\<close>: nullable strings print as the empty string, as does a missing date.\<close>

definition to_dict :: "book \<Rightarrow> json" where
  "to_dict b = JObj
     [(''Book_ID'', JInt (Book_ID b)),
      (''Book_Title'', JStr (Book_Title b)),
      (''Book_Author'', JStr (Book_Author b)),
      (''Book_Genre'', JStr (Book_Genre b)),
      (''Book_Publication'', JStr (or_empty (Book_Publication b))),
      (''Book_Publication_Date'',
         JStr (case Book_Publication_Date b of None \<Rightarrow> [] | Some d \<Rightarrow> strftime_Y_m_d d)),
      (''Book_Description'', JStr (or_empty (Book_Description b)))]"

text \<open>
  \<open>Book.query.get(book_id)\<close>: the row with that primary key, if any.
  \<open>db.session.delete(b); db.session.commit()\<close> removes the row with the key of \<open>b\<close>.
\<close>

definition query_get :: "('r \<Rightarrow> int) \<Rightarrow> int \<Rightarrow> 'r list \<Rightarrow> 'r option" where
  "query_get pk k rows = find (\<lambda>r. pk r = k) rows"

definition session_delete :: "('r \<Rightarrow> int) \<Rightarrow> 'r \<Rightarrow> 'r list \<Rightarrow> 'r list" where
  "session_delete pk r rows = filter (\<lambda>x. pk x \<noteq> pk r) rows"

text \<open>
  The \<open>DELETE\<close> branch of \<open>api_book_item\<close>. The \<open>except\<close> branch answers a failure
  of the database itself, which a table held as a list does not have.
\<close>

definition api_book_item_DELETE :: "int \<Rightarrow> book list \<Rightarrow> book list \<times> response" where
  "api_book_item_DELETE book_id books =
     (case query_get Book_ID book_id books of
        None \<Rightarrow> (books, api_error_single ''Book not found'' 404)
      | Some b \<Rightarrow> (session_delete Book_ID b books, (204, JObj [])))"


text \<open>
  The error dictionary of a handler, in insertion order:
  \<open>errors.setdefault(k, []).append(msg)\<close>, and \<open>api_error_multiple\<close>, which joins the
  messages of a field with \<open>", "\<close>.
\<close>

type_synonym errors = "(string \<times> string list) list"

definition add_error :: "string \<Rightarrow> string \<Rightarrow> errors \<Rightarrow> errors" where
  "add_error k msg errs =
     (if k \<in> set (map fst errs) then map (\<lambda>(k', ms). if k' = k then (k', ms @ [msg]) else (k', ms)) errs
      else errs @ [(k, [msg])])"

fun join :: "string \<Rightarrow> string list \<Rightarrow> string" where
  "join sep [] = []"
| "join sep [x] = x"
| "join sep (x # y # ys) = x @ sep @ join sep (y # ys)"

definition api_error_multiple :: "errors \<Rightarrow> nat \<Rightarrow> response" where
  "api_error_multiple errs st =
     (st, JObj [(''message'',
        JObj [(''error'', JList (map (\<lambda>(k, v). JStr (k @ '': '' @ join '', '' v)) errs))])])"

text \<open>
  The date of a body, in \<open>POST\<close> and \<open>PUT\<close>: \<open>parse_yyyymmdd(s) or None\<close>, and when
  that gives nothing \<open>datetime.strptime(s, "%Y-%m-%d").date()\<close> with every exception
  turned into \<open>None\<close>.
\<close>

definition body_date :: "string \<Rightarrow> date option" where
  "body_date s = (case parse_yyyymmdd s of Some d \<Rightarrow> Some d | None \<Rightarrow> strptime_date match_Y_m_d s)"



text \<open>The \<open>POST\<close> branch of \<open>api_books\<close>.\<close>

definition required_errors :: "payload \<Rightarrow> errors" where
  "required_errors p =
     foldl (\<lambda>e r. if \<not> truthy (payload_get p r) then add_error r ''Field is required'' e else e)
       [] [''Book_Title'', ''Book_Author'', ''Book_Genre'']"

definition str_or_empty :: "payload \<Rightarrow> string \<Rightarrow> string" where
  "str_or_empty p k = (case p k of None \<Rightarrow> [] | Some v \<Rightarrow> py_str v)"

definition api_books_POST :: "bool \<Rightarrow> payload \<Rightarrow> book list \<Rightarrow> book list \<times> response" where
  "api_books_POST is_json p books =
     (if \<not> is_json then (books, api_error_single ''Request body must be JSON'' 400)
      else
        let errors = required_errors p;
            dt = (if truthy (payload_get p ''Book_Publication_Date'')
                  then body_date (py_str (payload_get p ''Book_Publication_Date'')) else None);
            errors = (if truthy (payload_get p ''Book_Publication_Date'') \<and> dt = None
                      then add_error ''Book_Publication_Date''
                             ''Invalid date (expected yyyymmdd or YYYY-MM-DD)'' errors
                      else errors);
            pub_date = dt
        in if errors \<noteq> [] then (books, api_error_multiple errors 400)
           else
             let b = \<lparr>Book_ID = next_id (map Book_ID books),
                      Book_Title = take 300 (strip (py_str (payload_get p ''Book_Title''))),
                      Book_Author = take 120 (strip (py_str (payload_get p ''Book_Author''))),
                      Book_Genre = take 120 (strip (py_str (payload_get p ''Book_Genre''))),
                      Book_Publication = Some (take 200 (str_or_empty p ''Book_Publication'')),
                      Book_Publication_Date = pub_date,
                      Book_Description = Some (take 2000 (str_or_empty p ''Book_Description''))\<rparr>
             in (books @ [b], (201, to_dict b)))"

text \<open>The \<open>GET\<close> branch of \<open>api_book_item\<close>.\<close>

definition api_book_item_GET :: "int \<Rightarrow> book list \<Rightarrow> response" where
  "api_book_item_GET book_id books =
     (case query_get Book_ID book_id books of
        None \<Rightarrow> api_error_single ''Book not found'' 404
      | Some b \<Rightarrow> (200, to_dict b))"






text \<open>A field of a JSON object of a response.\<close>

definition json_field :: "json \<Rightarrow> string \<Rightarrow> json option" where
  "json_field j k = (case j of JObj kvs \<Rightarrow> map_of kvs k | _ \<Rightarrow> None)"

section \<open>Variant 2: genres and authors\<close>

text \<open>
  The names of genres and of authors are declared \<open>unique=True\<close>: a commit that
  would store a second row with a name already in the table raises
  \<open>IntegrityError\<close>.
\<close>

record genre =
  Genre_ID :: int
  Genre_Name :: string
  Genre_Description :: "string option"

record author =
  Author_ID :: int
  Author_Name :: string
  Author_Bio :: "string option"

definition genre_dict :: "genre \<Rightarrow> json" where
  "genre_dict g = JObj [(''Genre_ID'', JInt (Genre_ID g)), (''Genre_Name'', JStr (Genre_Name g)),
     (''Genre_Description'', JStr (or_empty (Genre_Description g)))]"

definition author_dict :: "author \<Rightarrow> json" where
  "author_dict a = JObj [(''Author_ID'', JInt (Author_ID a)), (''Author_Name'', JStr (Author_Name a)),
     (''Author_Bio'', JStr (or_empty (Author_Bio a)))]"

text \<open>
  \<open>payload.get(k, "").strip()\<close>: the empty string when the key is absent, the
  stripped string when the value is a string, and \<open>AttributeError\<close> (here \<open>None\<close>)
  for any other value. The second form is
  \<open>payload.get(k, "").strip() if payload.get(k) else ""\<close>.
\<close>

definition get_stripped :: "payload \<Rightarrow> string \<Rightarrow> string option" where
  "get_stripped p k =
     (case p k of None \<Rightarrow> Some []
      | Some (VStr s) \<Rightarrow> Some (strip s)
      | Some _ \<Rightarrow> None)"

definition get_stripped_if_set :: "payload \<Rightarrow> string \<Rightarrow> string option" where
  "get_stripped_if_set p k = (if truthy (payload_get p k) then get_stripped p k else Some [])"

text \<open>
  The \<open>POST\<close> branch of \<open>api_genres\<close>: the name is stripped and cut to 120
  characters; \<open>IntegrityError\<close> is answered with a rollback and 409.
\<close>

definition api_genres_POST :: "bool \<Rightarrow> payload \<Rightarrow> genre list \<Rightarrow> genre list \<times> response" where
  "api_genres_POST is_json p genres =
     (if \<not> is_json then (genres, api_error_single ''Request must be JSON'' 400)
      else
        (case get_stripped p ''Genre_Name'' of
           None \<Rightarrow> (genres, internal_server_error)
         | Some name \<Rightarrow>
            (case get_stripped_if_set p ''Genre_Description'' of
               None \<Rightarrow> (genres, internal_server_error)
             | Some desc \<Rightarrow>
                 if name = [] then (genres, api_error_single ''Genre_Name is required'' 400)
                 else
                   let g = \<lparr>Genre_ID = next_id (map Genre_ID genres), Genre_Name = take 120 name,
                            Genre_Description = Some (take 500 desc)\<rparr>
                   in if Genre_Name g \<in> set (map Genre_Name genres)
                      then (genres, api_error_single ''Genre with this name already exists'' 409)
                      else (genres @ [g], (201, genre_dict g)))))"

text \<open>The \<open>POST\<close> branch of \<open>api_authors\<close>, the same with a biography of 2000 characters.\<close>

definition api_authors_POST :: "bool \<Rightarrow> payload \<Rightarrow> author list \<Rightarrow> author list \<times> response" where
  "api_authors_POST is_json p authors =
     (if \<not> is_json then (authors, api_error_single ''Request must be JSON'' 400)
      else
        (case get_stripped p ''Author_Name'' of
           None \<Rightarrow> (authors, internal_server_error)
         | Some name \<Rightarrow>
            (case get_stripped_if_set p ''Author_Bio'' of
               None \<Rightarrow> (authors, internal_server_error)
             | Some bio \<Rightarrow>
                 if name = [] then (authors, api_error_single ''Author_Name is required'' 400)
                 else
                   let a = \<lparr>Author_ID = next_id (map Author_ID authors), Author_Name = take 120 name,
                            Author_Bio = Some (take 2000 bio)\<rparr>
                   in if Author_Name a \<in> set (map Author_Name authors)
                      then (authors, api_error_single ''Author with this name already exists'' 409)
                      else (authors @ [a], (201, author_dict a)))))"

section \<open>Original variant (book\_catalog\_original.py): books\<close>

text \<open>
  The model \<open>Book\<close> of the original variant, with the columns \<open>id\<close>, \<open>title\<close>,
  \<open>author_id\<close>, \<open>genre_id\<close>, \<open>pub_date\<close> (not nullable) and \<open>description\<close>;
  the names carry a suffix here, since \<open>id\<close> and the names of variant 2 are taken.
\<close>

record book_orig =
  id_orig :: int
  title_orig :: string
  author_id_orig :: int
  genre_id_orig :: int
  pub_date_orig :: date
  description_orig :: "string option"

text \<open>
  The \<open>DELETE\<close> branch of \<open>api_book\<close>: \<open>404\<close> with a message when the book is
  missing, else the row is deleted and the answer is \<open>('', 204)\<close>, an empty body
  (here \<open>JNull\<close>).
\<close>

definition api_book_DELETE :: "int \<Rightarrow> book_orig list \<Rightarrow> book_orig list \<times> response" where
  "api_book_DELETE book_id books =
     (case query_get id_orig book_id books of
        None \<Rightarrow> (books, (404, JObj [(''message'', JStr ''Book not found'')]))
      | Some b \<Rightarrow> (session_delete id_orig b books, (204, JNull)))"

text \<open>
  Genres and authors of the original variant (columns \<open>id\<close>, \<open>name\<close> and
  \<open>description\<close> or \<open>bio\<close>), and the three tables of its database.
\<close>

record genre_orig =
  g_id :: int
  g_name :: string
  g_description :: "string option"



definition json_opt_str :: "string option \<Rightarrow> json" where
  "json_opt_str x = (case x of None \<Rightarrow> JNull | Some s \<Rightarrow> JStr s)"

definition genre_to_dict :: "genre_orig \<Rightarrow> json" where
  "genre_to_dict g = JObj [(''id'', JInt (g_id g)), (''name'', JStr (g_name g)),
     (''description'', json_opt_str (g_description g))]"




text \<open>
  The \<open>GET\<close> branch of \<open>api_books\<close>. A date parameter that does not parse is
  ignored. When either of \<open>limit\<close> and \<open>offset\<close> is no integer both take their
  defaults. Neither is bounded.
\<close>

definition limit_offset_orig :: "query_args \<Rightarrow> int \<times> int" where
  "limit_offset_orig args =
     (case (int_arg args ''limit'' 10, int_arg args ''offset'' 0) of
        (Some limit, Some offset) \<Rightarrow> (limit, offset)
      | _ \<Rightarrow> (10, 0))"



text \<open>
  \<open>paginate_query(q, default_limit)\<close>: the same reading of \<open>limit\<close> and \<open>offset\<close>;
  it returns the items with the two values it used.
\<close>

definition paginate_query :: "query_args \<Rightarrow> 'r list \<Rightarrow> int \<Rightarrow> 'r list \<times> int \<times> int" where
  "paginate_query args q default_limit =
     (case (int_arg args ''limit'' default_limit, int_arg args ''offset'' 0) of
        (Some limit, Some offset) \<Rightarrow> (sql_limit limit (sql_offset offset q), limit, offset)
      | _ \<Rightarrow> (sql_limit default_limit (sql_offset 0 q), default_limit, 0))"






text \<open>
  The \<open>POST\<close> branch of \<open>api_genres\<close>. The body gives \<open>name\<close> and
  \<open>description\<close>, strings when present; an absent one counts as the empty string.
\<close>

record genre_body_orig =
  name_in :: "string option"
  desc_in :: "string option"

definition filter_by_name :: "('r \<Rightarrow> string) \<Rightarrow> string \<Rightarrow> 'r list \<Rightarrow> 'r option" where
  "filter_by_name nm n rows = find (\<lambda>r. nm r = n) rows"

definition api_genres_orig_POST :: "genre_body_orig \<Rightarrow> genre_orig list \<Rightarrow> genre_orig list \<times> response" where
  "api_genres_orig_POST data genres =
     (let name = strip (or_empty (name_in data));
          desc = or_empty (desc_in data)
      in if name = [] then (genres, (400, JObj [(''message'', JStr ''Name required'')]))
         else if filter_by_name g_name name genres \<noteq> None
         then (genres, (400, JObj [(''message'', JStr ''Genre already exists'')]))
         else
           let g = \<lparr>g_id = next_id (map g_id genres), g_name = name, g_description = Some desc\<rparr>
           in (genres @ [g], (201, genre_to_dict g)))"

section \<open>The list of books in remove\_3.py\<close>







section \<open>Pagination parameters of variants 3 and 4\<close>

text \<open>
  Variant 4 (CHATGPT\_book\_catalog\_secure\_code\_4.py): \<open>DEFAULT_LIMIT\<close>,
  \<open>MAX_LIMIT\<close>, \<open>clamp_limit\<close> on the raw parameter and
  \<open>api_pagination_params\<close>. Every exception of \<open>int\<close> gives the default.
\<close>

definition DEFAULT_LIMIT :: int where
  "DEFAULT_LIMIT = 10"

definition MAX_LIMIT :: int where
  "MAX_LIMIT = 100"

definition clamp_limit :: "string option \<Rightarrow> int" where
  "clamp_limit limit =
     (case limit of None \<Rightarrow> DEFAULT_LIMIT
      | Some s \<Rightarrow>
         (case py_int s of None \<Rightarrow> DEFAULT_LIMIT
          | Some l \<Rightarrow> if l < 1 then DEFAULT_LIMIT else min l MAX_LIMIT))"

definition api_pagination_params :: "query_args \<Rightarrow> int \<times> int" where
  "api_pagination_params args =
     (let limit = clamp_limit (args ''limit'');
          offset = (case int_arg args ''offset'' 0 of None \<Rightarrow> 0
                    | Some n \<Rightarrow> if n < 0 then 0 else n)
      in (limit, offset))"

text \<open>
  Variant 3 (CHATGPT\_book\_catalog\_secure\_code\_3.py): the first two lines of the
  \<open>GET\<close> branch of \<open>api_books_collection\<close>,
  \<open>limit = min(int(request.args.get('limit', DEFAULT_PAGE_SIZE)), MAX_PAGE_SIZE)\<close> and
  \<open>offset = max(int(request.args.get('offset', 0)), 0)\<close>. The \<open>ValueError\<close> of
  \<open>int\<close> is not caught: the request ends there (\<open>None\<close>) and no query runs. The
  two values go to \<open>paginate_query\<close>, which applies them to the query.
\<close>

definition DEFAULT_PAGE_SIZE :: int where
  "DEFAULT_PAGE_SIZE = 10"

definition MAX_PAGE_SIZE :: int where
  "MAX_PAGE_SIZE = 100"

definition api_books_collection_params :: "query_args \<Rightarrow> (int \<times> int) option" where
  "api_books_collection_params args =
     (case int_arg args ''limit'' DEFAULT_PAGE_SIZE of None \<Rightarrow> None
      | Some l \<Rightarrow>
         (case int_arg args ''offset'' 0 of None \<Rightarrow> None
          | Some n \<Rightarrow> Some (min l MAX_PAGE_SIZE, max n 0)))"

definition paginate_query_v3 :: "'r list \<Rightarrow> int \<Rightarrow> int \<Rightarrow> nat \<times> 'r list" where
  "paginate_query_v3 query limit offset = (length query, sql_limit limit (sql_offset offset query))"

section \<open>The simulation of signed messages (Mansour\_Microservcies\_1.py)\<close>

text \<open>
  The file signs messages with \<open>hmac\<close>, \<open>hashlib\<close>, \<open>base64\<close> and \<open>json\<close> of the
  standard library. These four are parameters of the model: the digest
  \<open>hmac.new(key, message, hashlib.sha256).digest()\<close>, \<open>base64.b64encode\<close>,
  \<open>base64.b64decode\<close> (\<open>None\<close> when it raises) and the canonical
  \<open>json.dumps(core, sort_keys=True, separators=(',', ':')).encode()\<close> of the five
  signed fields (\<open>None\<close> when the payload cannot be serialised). Byte strings and
  strings are both lists of characters; the payload of a message is of any type.
\<close>

record 'p library =
  hmac_digest :: "string \<Rightarrow> string \<Rightarrow> string"
  b64encode :: "string \<Rightarrow> string"
  b64decode :: "string \<Rightarrow> string option"
  json_dumps :: "string \<times> string \<times> 'p \<times> int \<times> string \<Rightarrow> string option"

definition hmac_sign :: "'p library \<Rightarrow> string \<Rightarrow> string \<Rightarrow> string" where
  "hmac_sign L key message = b64encode L (hmac_digest L key message)"

text \<open>\<open>hmac.compare_digest\<close> is equality of the two digests.\<close>

definition hmac_verify :: "'p library \<Rightarrow> string \<Rightarrow> string \<Rightarrow> string \<Rightarrow> bool" where
  "hmac_verify L key message signature_b64 =
     (case b64decode L signature_b64 of
        None \<Rightarrow> False
      | Some expected \<Rightarrow> hmac_digest L key message = expected)"

text \<open>The dataclass \<open>Message\<close>; the signature is \<open>None\<close> until the message is signed.\<close>

record 'p message =
  sender :: string
  recipient :: string
  msg_payload :: 'p
  ts :: int
  nonce :: string
  signature :: "string option"

text \<open>\<open>to_wire\<close> serialises every field but the signature.\<close>

definition to_wire :: "'p library \<Rightarrow> 'p message \<Rightarrow> string option" where
  "to_wire L m = json_dumps L (sender m, recipient m, msg_payload m, ts m, nonce m)"

text \<open>
  \<open>sign_with\<close> returns the message with its signature set; \<open>None\<close> is the exception
  of \<open>to_wire\<close>. \<open>verify_signature\<close> answers \<open>False\<close> without reading anything else
  when the signature is \<open>None\<close> or empty.
\<close>

definition sign_with :: "'p library \<Rightarrow> string \<Rightarrow> 'p message \<Rightarrow> 'p message option" where
  "sign_with L key m =
     (case to_wire L m of
        None \<Rightarrow> None
      | Some w \<Rightarrow> Some (m\<lparr>signature := Some (hmac_sign L key w)\<rparr>))"

definition verify_signature :: "'p library \<Rightarrow> string \<Rightarrow> 'p message \<Rightarrow> bool option" where
  "verify_signature L key m =
     (case signature m of
        None \<Rightarrow> Some False
      | Some s \<Rightarrow>
          if s = [] then Some False
          else (case to_wire L m of
                  None \<Rightarrow> None
                | Some w \<Rightarrow> Some (hmac_verify L key w s)))"







text \<open>
  What the model asks of the library: decoding undoes encoding, and the encoding of a
  digest is not empty (a SHA-256 digest has 32 bytes).
\<close>

definition library_ok :: "'p library \<Rightarrow> bool" where
  "library_ok L =
     ((\<forall>x. b64decode L (b64encode L x) = Some x) \<and>
      (\<forall>k w. b64encode L (hmac_digest L k w) \<noteq> []))"

text \<open>
  An instance of the library for concrete runs: the digest joins key and message, the
  encoding is the identity, and the wire form joins sender, recipient and nonce. The
  payload is a string.
\<close>

definition plain_library :: "string library" where
  "plain_library =
     \<lparr>hmac_digest = (\<lambda>k w. k @ ''|'' @ w),
      b64encode = (\<lambda>x. x),
      b64decode = (\<lambda>s. Some s),
      json_dumps = (\<lambda>c. Some (fst c @ ''|'' @ fst (snd c) @ ''|'' @ snd (snd (snd (snd c)))))\<rparr>"


definition late_message :: "string message" where
  "late_message =
     \<lparr>sender = ''Sender_MS'', recipient = ''Storage_MS'', msg_payload = ''parcel'', ts = 50,
      nonce = ''b'', signature = Some ''k|Sender_MS|Storage_MS|b''\<rparr>"

section \<open>Valid bodies of a partial update\<close>




section \<open>The filtered query of a list request\<close>








section \<open>The name a create request would store\<close>

text \<open>
  The handlers normalise the name of a new genre or author before they store it: the
  original variant strips it, variant 2 strips it and keeps 120 characters. In variant 2
  the optional text of the body must be a string when it is set.
\<close>

definition stored_name_orig :: "genre_body_orig \<Rightarrow> string" where
  "stored_name_orig data = strip (or_empty (name_in data))"

definition stored_name :: "string \<Rightarrow> string" where
  "stored_name raw = take 120 (strip raw)"

definition text_field_ok :: "payload \<Rightarrow> string \<Rightarrow> bool" where
  "text_field_ok p k = (get_stripped_if_set p k \<noteq> None)"

section \<open>Facts about the tables\<close>

lemma next_id_greater: "x \<in> set ids \<Longrightarrow> x < next_id ids"
proof (cases ids)
  case Nil
  assume "x \<in> set ids"
  with Nil show ?thesis by simp
next
  case (Cons a as)
  assume x: "x \<in> set ids"
  have "fold max as a = Max (set (a # as))" by (rule Max.set_eq_fold [symmetric])
  moreover have "x \<le> Max (set (a # as))" using x Cons by (intro Max_ge) auto
  ultimately show ?thesis using Cons by (simp add: next_id_def)
qed

lemma find_append_None: "find P xs = None \<Longrightarrow> find P (xs @ ys) = find P ys"
  by (induction xs) (auto split: if_splits)

lemma query_get_new_row:
  assumes "pk b = next_id (map pk rows)"
  shows "query_get pk (pk b) (rows @ [b]) = Some b"
proof -
  have "\<not> (\<exists>r \<in> set rows. pk r = pk b)"
  proof
    assume "\<exists>r \<in> set rows. pk r = pk b"
    then obtain r where "r \<in> set rows" "pk r = pk b" by blast
    then have "pk b \<in> set (map pk rows)" by (auto intro!: image_eqI [where x = r])
    from next_id_greater [OF this] assms show False by simp
  qed
  then have "find (\<lambda>r. pk r = pk b) rows = None" by (simp add: find_None_iff)
  then show ?thesis by (simp add: query_get_def find_append_None)
qed


lemma body_date_20200101: "body_date ''20200101'' = Some \<lparr>year = 2020, month = 1, day = 1\<rparr>"
  by (simp add: body_date_def parse_yyyymmdd_def DATE_RE_match_def is_digit_def in_class_def ord_def
      int_digits_def digit_val_def py_date_def days_in_month_def)

lemma strftime_20200101: "strftime_Y_m_d \<lparr>year = 2020, month = 1, day = 1\<rparr> = ''2020-01-01''"
  by code_simp

section \<open>The date parsers\<close>































section \<open>The page of a list request\<close>














section \<open>Creating a book and reading it back\<close>

text \<open>
  C3. In variant 2, on any table of books, the \<open>POST\<close> with \<open>Book_Title = "T"\<close>,
  \<open>Book_Author = "A"\<close>, \<open>Book_Genre = "G"\<close> and
  \<open>Book_Publication_Date = "20200101"\<close> is answered with 201 and the created book, and
  the \<open>GET\<close> of the created book's id is then answered with 200 and an object whose
  \<open>Book_Publication_Date\<close> is \<open>"2020-01-01"\<close>.
\<close>

theorem post_then_get_date:
  "api_books_POST True
     [''Book_Title'' \<mapsto> VStr ''T'', ''Book_Author'' \<mapsto> VStr ''A'', ''Book_Genre'' \<mapsto> VStr ''G'',
      ''Book_Publication_Date'' \<mapsto> VStr ''20200101''] books
   = (books @ [\<lparr>Book_ID = next_id (map Book_ID books), Book_Title = ''T'', Book_Author = ''A'',
        Book_Genre = ''G'', Book_Publication = Some [],
        Book_Publication_Date = Some \<lparr>year = 2020, month = 1, day = 1\<rparr>,
        Book_Description = Some []\<rparr>],
      (201, to_dict \<lparr>Book_ID = next_id (map Book_ID books), Book_Title = ''T'', Book_Author = ''A'',
        Book_Genre = ''G'', Book_Publication = Some [],
        Book_Publication_Date = Some \<lparr>year = 2020, month = 1, day = 1\<rparr>,
        Book_Description = Some []\<rparr>)) \<and>
   fst (api_book_item_GET (next_id (map Book_ID books))
     (fst (api_books_POST True
       [''Book_Title'' \<mapsto> VStr ''T'', ''Book_Author'' \<mapsto> VStr ''A'', ''Book_Genre'' \<mapsto> VStr ''G'',
        ''Book_Publication_Date'' \<mapsto> VStr ''20200101''] books))) = 200 \<and>
   json_field (snd (api_book_item_GET (next_id (map Book_ID books))
     (fst (api_books_POST True
       [''Book_Title'' \<mapsto> VStr ''T'', ''Book_Author'' \<mapsto> VStr ''A'', ''Book_Genre'' \<mapsto> VStr ''G'',
        ''Book_Publication_Date'' \<mapsto> VStr ''20200101''] books)))) ''Book_Publication_Date''
   = Some (JStr ''2020-01-01'')"
proof -
  let ?p = "[''Book_Title'' \<mapsto> VStr ''T'', ''Book_Author'' \<mapsto> VStr ''A'', ''Book_Genre'' \<mapsto> VStr ''G'',
      ''Book_Publication_Date'' \<mapsto> VStr ''20200101'']"
  let ?b = "\<lparr>Book_ID = next_id (map Book_ID books), Book_Title = ''T'', Book_Author = ''A'',
        Book_Genre = ''G'', Book_Publication = Some [],
        Book_Publication_Date = Some \<lparr>year = 2020, month = 1, day = 1\<rparr>,
        Book_Description = Some []\<rparr>"
  have req: "required_errors ?p = []"
    by (simp add: required_errors_def payload_get_def)
  have sp: "strip ''T'' = ''T''" "strip ''A'' = ''A''" "strip ''G'' = ''G''"
    by (simp_all add: strip_def is_space_def ord_def)
  have post: "api_books_POST True ?p books = (books @ [?b], (201, to_dict ?b))"
    by (simp add: api_books_POST_def req payload_get_def body_date_20200101 sp str_or_empty_def Let_def)
  have get: "api_book_item_GET (next_id (map Book_ID books)) (books @ [?b]) = (200, to_dict ?b)"
    using query_get_new_row [of Book_ID ?b books] by (simp add: api_book_item_GET_def)
  have fld: "json_field (to_dict ?b) ''Book_Publication_Date'' = Some (JStr ''2020-01-01'')"
    by (simp add: json_field_def to_dict_def strftime_20200101 [simplified])
  show ?thesis
    by (simp only: post get fld fst_conv snd_conv simp_thms)
qed

section \<open>Bounds on the pagination parameters\<close>

lemma clamp_limit_range: "1 \<le> clamp_limit x \<and> clamp_limit x \<le> MAX_LIMIT"
  by (auto simp: clamp_limit_def DEFAULT_LIMIT_def MAX_LIMIT_def split: option.splits)

text \<open>
  C4 (as amended). Whatever \<open>limit\<close> and \<open>offset\<close> a list request carries, in
  variant 4 the values \<open>api_pagination_params\<close> returns satisfy
  \<open>1 \<le> limit \<le> MAX_LIMIT\<close> and \<open>offset \<ge> 0\<close>; in variant 3 the values the query
  runs with satisfy \<open>limit \<le> MAX_PAGE_SIZE\<close> and \<open>offset \<ge> 0\<close>, and no query runs
  when one of the two is no integer. The original variant has no bound: parameters that
  are integers are used as they are given.
\<close>

theorem pagination_bounds:
  "1 \<le> fst (api_pagination_params args) \<and>
   fst (api_pagination_params args) \<le> MAX_LIMIT \<and>
   0 \<le> snd (api_pagination_params args) \<and>
   (api_books_collection_params args = Some (l, n) \<longrightarrow> l \<le> MAX_PAGE_SIZE \<and> 0 \<le> n) \<and>
   (api_books_collection_params args = None \<longleftrightarrow>
      int_arg args ''limit'' DEFAULT_PAGE_SIZE = None \<or> int_arg args ''offset'' 0 = None) \<and>
   (int_arg args ''limit'' 10 = Some l' \<and> int_arg args ''offset'' 0 = Some n' \<longrightarrow>
      limit_offset_orig args = (l', n') \<and> snd (paginate_query args q 10) = (l', n'))"
proof -
  have "0 \<le> snd (api_pagination_params args)"
    by (auto simp: api_pagination_params_def Let_def split: option.splits)
  moreover have "api_books_collection_params args = Some (l, n) \<longrightarrow> l \<le> MAX_PAGE_SIZE \<and> 0 \<le> n"
    by (auto simp: api_books_collection_params_def split: option.splits)
  moreover have "api_books_collection_params args = None \<longleftrightarrow>
      int_arg args ''limit'' DEFAULT_PAGE_SIZE = None \<or> int_arg args ''offset'' 0 = None"
    by (auto simp: api_books_collection_params_def split: option.splits)
  moreover have "int_arg args ''limit'' 10 = Some l' \<and> int_arg args ''offset'' 0 = Some n' \<longrightarrow>
      limit_offset_orig args = (l', n') \<and> snd (paginate_query args q 10) = (l', n')"
    by (auto simp: limit_offset_orig_def paginate_query_def)
  ultimately show ?thesis
    using clamp_limit_range [of "args ''limit''"] by (simp add: api_pagination_params_def Let_def)
qed

lemma py_int_1000000: "py_int ''1000000'' = Some 1000000"
  by (simp add: py_int_def int_strip_def is_int_space_def ord_def int_unsigned_def is_digit_def in_class_def
      digit_val_def)

lemma py_int_minus_5: "py_int ''-5'' = Some (- 5)"
  by (simp add: py_int_def int_strip_def is_int_space_def ord_def int_unsigned_def is_digit_def in_class_def
      digit_val_def)

lemma py_int_abc: "py_int ''abc'' = None"
  by (simp add: py_int_def int_strip_def is_int_space_def ord_def int_unsigned_def is_digit_def in_class_def
      digit_val_def)

theorem pagination_bounds_witness:
  "api_pagination_params [''limit'' \<mapsto> ''1000000'', ''offset'' \<mapsto> ''-5''] = (100, 0) \<and>
   api_pagination_params [''limit'' \<mapsto> ''abc'', ''offset'' \<mapsto> ''abc''] = (10, 0) \<and>
   api_books_collection_params [''limit'' \<mapsto> ''1000000'', ''offset'' \<mapsto> ''-5''] = Some (100, 0) \<and>
   api_books_collection_params [''limit'' \<mapsto> ''abc'', ''offset'' \<mapsto> ''-5''] = None \<and>
   limit_offset_orig [''limit'' \<mapsto> ''1000000'', ''offset'' \<mapsto> ''-5''] = (1000000, - 5)"
  using pagination_bounds [where args = "[''limit'' \<mapsto> ''1000000'', ''offset'' \<mapsto> ''-5'']"
      and l = 100 and n = 0 and l' = 1000000 and n' = "- 5" and q = "[] :: int list"]
  by (simp add: api_pagination_params_def clamp_limit_def int_arg_def py_int_1000000 py_int_minus_5
      py_int_abc api_books_collection_params_def MAX_LIMIT_def MAX_PAGE_SIZE_def DEFAULT_LIMIT_def
      DEFAULT_PAGE_SIZE_def limit_offset_orig_def)

text \<open>
  The claim as first stated fails in the original variant: \<open>limit=1000000\<close> and
  \<open>offset=-5\<close> reach the query unchanged.
\<close>

theorem original_pagination_unclamped:
  "snd (paginate_query [''limit'' \<mapsto> ''1000000'', ''offset'' \<mapsto> ''-5''] ([] :: int list) 10)
     = (1000000, - 5) \<and>
   limit_offset_orig [''limit'' \<mapsto> ''1000000'', ''offset'' \<mapsto> ''-5''] = (1000000, - 5) \<and>
   \<not> (0 \<le> snd (limit_offset_orig [''limit'' \<mapsto> ''1000000'', ''offset'' \<mapsto> ''-5'']))"
  by (simp add: paginate_query_def limit_offset_orig_def int_arg_def py_int_1000000 py_int_minus_5)

section \<open>Deleting twice\<close>

lemma query_get_Some_pk: "query_get pk k rows = Some r \<Longrightarrow> pk r = k"
  by (auto simp: query_get_def find_Some_iff)

lemma query_get_after_delete:
  "query_get pk k (session_delete pk r rows) = (if pk r = k then None else query_get pk k rows)"
  by (induction rows) (auto simp: query_get_def session_delete_def)

text \<open>
  C5. After a successful \<open>DELETE\<close> of a book (status 204), a second \<open>DELETE\<close> of the
  same id answers 404 and leaves the table as the first call left it; in variant 2 and
  in the original variant.
\<close>

theorem delete_twice_404:
  "(api_book_item_DELETE k books = (books', (204, b1)) \<longrightarrow>
      fst (snd (api_book_item_DELETE k books')) = 404 \<and>
      fst (api_book_item_DELETE k books') = books') \<and>
   (api_book_DELETE j obooks = (obooks', (204, b2)) \<longrightarrow>
      fst (snd (api_book_DELETE j obooks')) = 404 \<and>
      fst (api_book_DELETE j obooks') = obooks')"
proof (intro conjI impI)
  assume a: "api_book_item_DELETE k books = (books', (204, b1))"
  then obtain b where g: "query_get Book_ID k books = Some b"
    and d: "books' = session_delete Book_ID b books"
    by (auto simp: api_book_item_DELETE_def api_error_single_def split: option.splits)
  from g have "Book_ID b = k" by (rule query_get_Some_pk)
  then have n: "query_get Book_ID k books' = None"
    by (simp add: d query_get_after_delete)
  show "fst (snd (api_book_item_DELETE k books')) = 404"
    by (simp add: api_book_item_DELETE_def n api_error_single_def)
  show "fst (api_book_item_DELETE k books') = books'"
    by (simp add: api_book_item_DELETE_def n)
next
  assume a: "api_book_DELETE j obooks = (obooks', (204, b2))"
  then obtain b where g: "query_get id_orig j obooks = Some b"
    and d: "obooks' = session_delete id_orig b obooks"
    by (auto simp: api_book_DELETE_def split: option.splits)
  from g have "id_orig b = j" by (rule query_get_Some_pk)
  then have n: "query_get id_orig j obooks' = None"
    by (simp add: d query_get_after_delete)
  show "fst (snd (api_book_DELETE j obooks')) = 404"
    by (simp add: api_book_DELETE_def n)
  show "fst (api_book_DELETE j obooks') = obooks'"
    by (simp add: api_book_DELETE_def n)
qed

theorem delete_twice_404_witness:
  "api_book_item_DELETE 1
     [\<lparr>Book_ID = 1, Book_Title = ''T'', Book_Author = ''A'', Book_Genre = ''G'',
       Book_Publication = None, Book_Publication_Date = None, Book_Description = None\<rparr>]
     = ([], (204, JObj [])) \<and>
   fst (snd (api_book_item_DELETE 1 [])) = 404 \<and>
   fst (api_book_item_DELETE 1 []) = [] \<and>
   api_book_DELETE 7
     [\<lparr>id_orig = 7, title_orig = ''T'', author_id_orig = 1, genre_id_orig = 1,
       pub_date_orig = \<lparr>year = 2020, month = 1, day = 1\<rparr>, description_orig = None\<rparr>]
     = ([], (204, JNull)) \<and>
   fst (snd (api_book_DELETE 7 [])) = 404 \<and>
   fst (api_book_DELETE 7 []) = []"
  using delete_twice_404 [of 1
     "[\<lparr>Book_ID = 1, Book_Title = ''T'', Book_Author = ''A'', Book_Genre = ''G'',
       Book_Publication = None, Book_Publication_Date = None, Book_Description = None\<rparr>]"
     "[]" "JObj []" 7
     "[\<lparr>id_orig = 7, title_orig = ''T'', author_id_orig = 1, genre_id_orig = 1,
       pub_date_orig = \<lparr>year = 2020, month = 1, day = 1\<rparr>, description_orig = None\<rparr>]"
     "[]" JNull]
  by (simp add: api_book_item_DELETE_def api_book_DELETE_def query_get_def session_delete_def
      api_error_single_def)

section \<open>Duplicate names\<close>

lemma filter_by_name_Some: "n \<in> set (map nm rows) \<Longrightarrow> filter_by_name nm n rows \<noteq> None"
  by (auto simp: filter_by_name_def find_None_iff)

text \<open>
  C6 (as amended). A create request for a genre or an author whose name, as the handler
  would store it, equals the name of an existing row is rejected and the table is left
  as it was: with 400 in the original variant (\<open>api_genres\<close>), and in variant 2
  (\<open>api_genres\<close>, \<open>api_authors\<close>) with 409, or with 400 when the name is blank.
\<close>

theorem duplicate_name_rejected:
  "(stored_name_orig data \<in> set (map g_name genres0) \<longrightarrow>
      fst (api_genres_orig_POST data genres0) = genres0 \<and>
      fst (snd (api_genres_orig_POST data genres0)) = 400) \<and>
   (p ''Genre_Name'' = Some (VStr raw) \<and> text_field_ok p ''Genre_Description'' \<and>
    stored_name raw \<in> set (map Genre_Name genres) \<longrightarrow>
      fst (api_genres_POST True p genres) = genres \<and>
      fst (snd (api_genres_POST True p genres)) = (if strip raw = [] then 400 else 409)) \<and>
   (q ''Author_Name'' = Some (VStr raw') \<and> text_field_ok q ''Author_Bio'' \<and>
    stored_name raw' \<in> set (map Author_Name authors) \<longrightarrow>
      fst (api_authors_POST True q authors) = authors \<and>
      fst (snd (api_authors_POST True q authors)) = (if strip raw' = [] then 400 else 409))"
proof (intro conjI impI)
  assume a: "stored_name_orig data \<in> set (map g_name genres0)"
  then have f: "filter_by_name g_name (strip (or_empty (name_in data))) genres0 \<noteq> None"
    unfolding stored_name_orig_def by (rule filter_by_name_Some)
  show "fst (api_genres_orig_POST data genres0) = genres0"
    using f by (simp add: api_genres_orig_POST_def Let_def)
  show "fst (snd (api_genres_orig_POST data genres0)) = 400"
    using f by (simp add: api_genres_orig_POST_def Let_def)
next
  assume a: "p ''Genre_Name'' = Some (VStr raw) \<and> text_field_ok p ''Genre_Description'' \<and>
    stored_name raw \<in> set (map Genre_Name genres)"
  then obtain desc where d: "get_stripped_if_set p ''Genre_Description'' = Some desc"
    by (auto simp: text_field_ok_def)
  from a have n: "get_stripped p ''Genre_Name'' = Some (strip raw)" by (simp add: get_stripped_def)
  from a have m: "take 120 (strip raw) \<in> set (map Genre_Name genres)" by (simp add: stored_name_def)
  show "fst (api_genres_POST True p genres) = genres"
    using m by (auto simp: api_genres_POST_def n d Let_def api_error_single_def)
  show "fst (snd (api_genres_POST True p genres)) = (if strip raw = [] then 400 else 409)"
    using m by (auto simp: api_genres_POST_def n d Let_def api_error_single_def)
next
  assume a: "q ''Author_Name'' = Some (VStr raw') \<and> text_field_ok q ''Author_Bio'' \<and>
    stored_name raw' \<in> set (map Author_Name authors)"
  then obtain bio where d: "get_stripped_if_set q ''Author_Bio'' = Some bio"
    by (auto simp: text_field_ok_def)
  from a have n: "get_stripped q ''Author_Name'' = Some (strip raw')" by (simp add: get_stripped_def)
  from a have m: "take 120 (strip raw') \<in> set (map Author_Name authors)" by (simp add: stored_name_def)
  show "fst (api_authors_POST True q authors) = authors"
    using m by (auto simp: api_authors_POST_def n d Let_def api_error_single_def)
  show "fst (snd (api_authors_POST True q authors)) = (if strip raw' = [] then 400 else 409)"
    using m by (auto simp: api_authors_POST_def n d Let_def api_error_single_def)
qed


theorem duplicate_name_rejected_witness:
  "api_genres_orig_POST \<lparr>name_in = Some ''Fiction'', desc_in = None\<rparr>
     [\<lparr>g_id = 1, g_name = ''Fiction'', g_description = None\<rparr>]
   = ([\<lparr>g_id = 1, g_name = ''Fiction'', g_description = None\<rparr>],
      (400, JObj [(''message'', JStr ''Genre already exists'')])) \<and>
   api_genres_POST True [''Genre_Name'' \<mapsto> VStr ''Fiction'']
     [\<lparr>Genre_ID = 1, Genre_Name = ''Fiction'', Genre_Description = None\<rparr>]
   = ([\<lparr>Genre_ID = 1, Genre_Name = ''Fiction'', Genre_Description = None\<rparr>],
      api_error_single ''Genre with this name already exists'' 409) \<and>
   api_authors_POST True [''Author_Name'' \<mapsto> VStr ''Ann'']
     [\<lparr>Author_ID = 1, Author_Name = ''Ann'', Author_Bio = None\<rparr>]
   = ([\<lparr>Author_ID = 1, Author_Name = ''Ann'', Author_Bio = None\<rparr>],
      api_error_single ''Author with this name already exists'' 409)"
  using duplicate_name_rejected [where data = "\<lparr>name_in = Some ''Fiction'', desc_in = None\<rparr>"
      and ?genres0.0 = "[\<lparr>g_id = 1, g_name = ''Fiction'', g_description = None\<rparr>]"
      and p = "[''Genre_Name'' \<mapsto> VStr ''Fiction'']" and raw = "''Fiction''"
      and genres = "[\<lparr>Genre_ID = 1, Genre_Name = ''Fiction'', Genre_Description = None\<rparr>]"
      and q = "[''Author_Name'' \<mapsto> VStr ''Ann'']" and raw' = "''Ann''"
      and authors = "[\<lparr>Author_ID = 1, Author_Name = ''Ann'', Author_Bio = None\<rparr>]"]
  by (simp add: api_genres_orig_POST_def api_genres_POST_def api_authors_POST_def stored_name_orig_def
      stored_name_def text_field_ok_def get_stripped_def get_stripped_if_set_def payload_get_def
      or_empty_def strip_def is_space_def ord_def filter_by_name_def Let_def)

text \<open>
  The claim as first stated speaks of the name in the request. A name with a leading
  space that equals the name of a stored row (which a \<open>PUT\<close> can store, since it does
  not strip) is accepted: the row created carries the stripped name.
\<close>

theorem padded_duplicate_accepted:
  "Genre_Name \<lparr>Genre_ID = 1, Genre_Name = '' Fiction'', Genre_Description = None\<rparr> = '' Fiction'' \<and>
   api_genres_POST True [''Genre_Name'' \<mapsto> VStr '' Fiction'']
     [\<lparr>Genre_ID = 1, Genre_Name = '' Fiction'', Genre_Description = None\<rparr>]
   = ([\<lparr>Genre_ID = 1, Genre_Name = '' Fiction'', Genre_Description = None\<rparr>,
       \<lparr>Genre_ID = 2, Genre_Name = ''Fiction'', Genre_Description = Some []\<rparr>],
      (201, genre_dict \<lparr>Genre_ID = 2, Genre_Name = ''Fiction'', Genre_Description = Some []\<rparr>))"
  by (simp add: api_genres_POST_def get_stripped_def get_stripped_if_set_def payload_get_def
      strip_def is_space_def ord_def next_id_def Let_def)

section \<open>Partial updates keep the absent fields\<close>















section \<open>Filtering by a range of dates\<close>












section \<open>Signing and verifying\<close>

text \<open>
  C9. With a library whose decoding undoes its encoding and whose encoded digests are
  not empty: for every message \<open>m\<close> and every key \<open>k\<close>, the message that
  \<open>m.sign_with(k)\<close> leaves verifies under \<open>k\<close>; and a message whose signature is
  \<open>None\<close> verifies under no key.
\<close>

theorem sign_then_verify:
  "library_ok L \<longrightarrow>
     (sign_with L k m = Some m' \<longrightarrow> verify_signature L k m' = Some True) \<and>
     (signature m = None \<longrightarrow> verify_signature L k' m = Some False)"
proof (intro impI conjI)
  assume ok: "library_ok L" and s: "sign_with L k m = Some m'"
  from s obtain w where w: "to_wire L m = Some w" and m': "m' = m\<lparr>signature := Some (hmac_sign L k w)\<rparr>"
    by (auto simp: sign_with_def split: option.splits)
  have w': "to_wire L m' = Some w" using w by (simp add: m' to_wire_def)
  have ne: "hmac_sign L k w \<noteq> []" using ok by (simp add: library_ok_def hmac_sign_def)
  have "hmac_verify L k w (hmac_sign L k w)"
    using ok by (simp add: library_ok_def hmac_verify_def hmac_sign_def)
  with ne w' show "verify_signature L k m' = Some True"
    by (simp add: verify_signature_def m')
next
  assume "signature m = None"
  then show "verify_signature L k' m = Some False" by (simp add: verify_signature_def)
qed

lemma plain_library_ok: "library_ok plain_library"
  by (simp add: library_ok_def plain_library_def)

theorem sign_then_verify_witness:
  "library_ok plain_library \<and>
   sign_with plain_library ''k'' (late_message\<lparr>signature := None\<rparr>) = Some late_message \<and>
   verify_signature plain_library ''k'' late_message = Some True \<and>
   signature (late_message\<lparr>signature := None\<rparr>) = None \<and>
   verify_signature plain_library ''other'' (late_message\<lparr>signature := None\<rparr>) = Some False"
  using sign_then_verify [where L = plain_library and k = "''k''" and k' = "''other''"
      and m = "late_message\<lparr>signature := None\<rparr>" and m' = late_message]
    plain_library_ok
  by (simp add: sign_with_def to_wire_def plain_library_def late_message_def hmac_sign_def)

section \<open>Replayed nonces\<close>












end
